theory Spec2Isabelle
  imports Main
begin

section \<open>Data model\<close>

text \<open>
  Identifiers of the chat protocol (\<open>id.UserID\<close>, \<open>id.EventID\<close>, \<open>id.RoomID\<close>) are Go
  string types; a Go \<open>error\<close> is represented by its message, \<open>nil\<close> by the absence of one.
\<close>

type_synonym UserID = string
type_synonym EventID = string
type_synonym RoomID = string
type_synonym error = string

text \<open>\<open>type Config struct\<close> of \<open>bot/matrix.go\<close>.\<close>

record Config =
  Homeserver :: string
  UserID :: string
  UserAccessKey :: string
  UserPassword :: string
  DBPath :: string
  Pickle :: string
  OpenAIKey :: string

text \<open>
  The role constants of the completion library and the model name used by the earlier
  revision of the handler.
\<close>

definition ChatMessageRoleSystem :: string where
  "ChatMessageRoleSystem = ''system''"

definition ChatMessageRoleUser :: string where
  "ChatMessageRoleUser = ''user''"

definition ChatMessageRoleAssistant :: string where
  "ChatMessageRoleAssistant = ''assistant''"

definition GPT4 :: string where
  "GPT4 = ''gpt-4''"

text \<open>
  \<open>Message\<close> is the turn of a conversation. Its four fields are the ones the handler
  fills in at \<open>conv.Add(Message{EventID: ..., ParentID: ..., Role: ..., Content: ...})\<close>.
\<close>

record Message =
  EventID :: EventID
  ParentID :: EventID
  Role :: string
  Content :: string

text \<open>
  Modelled from the spec: the declaration of \<open>Conversation\<close> is not among the source
  files. The spec gives it one component, \<open>turns\<close>, the ordered, append-only sequence
  of turns.
\<close>

record Conversation =
  turns :: "Message list"

text \<open>
  Modelled from the spec: \<open>Conversation.Add\<close> is not among the source files. The spec's
  \<open>append(conversation, turn)\<close> adds a turn to the end of the conversation's sequence,
  without de-duplication.
\<close>

definition Add :: "Conversation \<Rightarrow> Message \<Rightarrow> Conversation" where
  "Add conv msg = conv\<lparr>turns := turns conv @ [msg]\<rparr>"

text \<open>
  Modelled from the spec: \<open>NewConversation\<close> is not among the source files. The handler
  calls it with the event body alone, \<open>NewConversation(content.Body)\<close>, and the spec
  describes the result as a new conversation whose sole seed content is the event body:
  one user turn carrying that text. The function is not given the event, so the turn's
  \<open>EventID\<close> and \<open>ParentID\<close> are the zero value of a Go string.
\<close>

definition NewConversation :: "string \<Rightarrow> Conversation" where
  "NewConversation question =
     \<lparr>turns = [\<lparr>EventID = '''', ParentID = '''', Role = ChatMessageRoleUser,
                 Content = question\<rparr>]\<rparr>"

text \<open>\<open>holds conv eid\<close>: the conversation contains a turn whose id is \<open>eid\<close>.\<close>

definition holds :: "Conversation \<Rightarrow> EventID \<Rightarrow> bool" where
  "holds conv eid = (eid \<in> set (map EventID (turns conv)))"

text \<open>
  Modelled from the spec: \<open>Conversations.FindByEventID\<close> is not among the source files.
  The spec's \<open>findByTurnID\<close> is a lookup across all held conversations that returns the
  first conversation containing a turn with that id, or "not found".

  \<open>m.conversations\<close> is a slice of pointers, each pointer made by one call of
  \<open>NewConversation\<close> and stored once; the handler mutates a conversation through the
  pointer the lookup returned. The model keeps the conversations themselves in the list
  and uses the position in the list as the pointer: the lookup returns a position, and a
  mutation through the pointer is an update of the list at that position.
\<close>

fun FindByEventID :: "Conversation list \<Rightarrow> EventID \<Rightarrow> nat option" where
  "FindByEventID [] eid = None"
| "FindByEventID (conv # convs) eid =
     (if holds conv eid then Some 0 else map_option Suc (FindByEventID convs eid))"

subsection \<open>Events of the chat protocol\<close>

text \<open>
  The parts of the protocol library's event that the handlers read. \<open>GetReplyTo\<close>,
  \<open>GetStateKey\<close>, \<open>AsMessage\<close> and \<open>AsMember\<close> are the library's accessors: a missing
  reply relation or state key reads as the empty string, a content of another kind as
  the empty content.
\<close>

record RelatesTo =
  InReplyTo :: "EventID option"

definition GetReplyTo :: "RelatesTo \<Rightarrow> EventID" where
  "GetReplyTo rel = (case InReplyTo rel of None \<Rightarrow> '''' | Some eid \<Rightarrow> eid)"

record MessageEventContent =
  Body :: string
  FormattedBody :: string
  RelatesTo :: "RelatesTo option"

definition GetRelatesTo :: "MessageEventContent \<Rightarrow> RelatesTo option" where
  "GetRelatesTo content = RelatesTo content"

record MemberEventContent =
  Membership :: string

definition MembershipInvite :: string where
  "MembershipInvite = ''invite''"

datatype Parsed =
    ParsedMessage MessageEventContent
  | ParsedMember MemberEventContent
  | ParsedOther

fun AsMessage :: "Parsed \<Rightarrow> MessageEventContent" where
  "AsMessage (ParsedMessage c) = c"
| "AsMessage _ = \<lparr>Body = '''', FormattedBody = '''', RelatesTo = None\<rparr>"

fun AsMember :: "Parsed \<Rightarrow> MemberEventContent" where
  "AsMember (ParsedMember c) = c"
| "AsMember _ = \<lparr>Membership = ''''\<rparr>"

definition EventMessage :: string where
  "EventMessage = ''m.room.message''"

definition StateMember :: string where
  "StateMember = ''m.room.member''"

record Event =
  Sender :: UserID
  Type :: string
  ID :: EventID
  RoomID :: RoomID
  StateKey :: "string option"
  EvContent :: Parsed

definition GetStateKey :: "Event \<Rightarrow> string" where
  "GetStateKey evt = (case StateKey evt of None \<Rightarrow> '''' | Some k \<Rightarrow> k)"

subsection \<open>The completion service of the earlier revision\<close>

record ChatCompletionMessage =
  MsgRole :: string
  MsgContent :: string

record ChatCompletionRequest =
  Model :: string
  Messages :: "ChatCompletionMessage list"

record ChatCompletionChoice =
  ChoiceMessage :: ChatCompletionMessage

record ChatCompletionResponse =
  Choices :: "ChatCompletionChoice list"

subsection \<open>Collaborators, effects and outcomes\<close>

text \<open>
  The handlers call four operations that leave the process: joining a room, sending a
  message event, the completion client (\<open>GPT.Complete\<close> in \<open>bot/matrix.go\<close>,
  \<open>CreateChatCompletion\<close> in the earlier revision) and the markdown renderer. Their
  answers are parameters of the model. \<open>Complete\<close> is a method of this repository whose
  source is not available; it is taken as a parameter that reads the conversation and
  answers with an error or with the reply text.
\<close>

record Collaborators =
  JoinRoomByID :: "RoomID \<Rightarrow> error option"
  SendMessageEvent :: "RoomID \<Rightarrow> string \<Rightarrow> MessageEventContent \<Rightarrow> error + EventID"
  Complete :: "Conversation \<Rightarrow> error + string"
  CreateChatCompletion :: "ChatCompletionRequest \<Rightarrow> error + ChatCompletionResponse"
  RenderMarkdown :: "string \<Rightarrow> bool \<Rightarrow> bool \<Rightarrow> MessageEventContent"

text \<open>
  Everything a handler does besides changing the bot's own state is recorded, in order,
  in a trace: log lines (message and fields), the readline prompt, and every call of a
  collaborator together with the answer it gave.
\<close>

datatype effect =
    LogInfo string "(string \<times> string) list"
  | LogError error string "(string \<times> string) list"
  | Println string error
  | SetPrompt string
  | CallJoinRoomByID RoomID "error option"
  | CallComplete Conversation "error + string"
  | CallCreateChatCompletion ChatCompletionRequest "error + ChatCompletionResponse"
  | CallSendMessageEvent RoomID string MessageEventContent "error + EventID"

text \<open>
  A handler either returns to the syncer or panics. The only panic in the handlers is
  Go's index-out-of-range; it carries the offending index.
\<close>

datatype outcome = Returned | Panicked int

text \<open>Go's \<open>xs[i]\<close> for an \<open>int\<close> index.\<close>

definition index :: "'a list \<Rightarrow> int \<Rightarrow> int + 'a" where
  "index xs i = (if 0 \<le> i \<and> i < int (length xs) then Inr (xs ! nat i) else Inl i)"

text \<open>
  \<open>type Matrix struct\<close>: the configuration, the identity the protocol client was created
  with (\<open>m.client.UserID\<close>) and the conversations. The earlier revision has the same
  structure without the conversations, which its handlers never touch.
\<close>

record Matrix =
  config :: Config
  client_UserID :: UserID
  conversations :: "Conversation list"

section \<open>The handlers of \<open>bot/matrix.go\<close>\<close>

definition InviteHandler :: "Collaborators \<Rightarrow> Matrix \<Rightarrow> Event \<Rightarrow> Matrix \<times> effect list \<times> outcome" where
  "InviteHandler env m evt =
     (if GetStateKey evt = client_UserID m
         \<and> Membership (AsMember (EvContent evt)) = MembershipInvite
      then
        (let err = JoinRoomByID env (RoomID evt) in
         case err of
           None \<Rightarrow>
             (m, [CallJoinRoomByID (RoomID evt) err,
                  LogInfo ''Joined room after invite''
                    [(''room_id'', RoomID evt), (''inviter'', Sender evt)]], Returned)
         | Some e \<Rightarrow>
             (m, [CallJoinRoomByID (RoomID evt) err,
                  LogError e ''Failed to join room after invite''
                    [(''room_id'', RoomID evt), (''inviter'', Sender evt)]], Returned))
      else (m, [], Returned))"

definition RespondHandler :: "Collaborators \<Rightarrow> Matrix \<Rightarrow> Event \<Rightarrow> Matrix \<times> effect list \<times> outcome" where
  "RespondHandler env m evt =
     (let content = AsMessage (EvContent evt);
          received = [LogInfo ''Received message'' [(''content'', Body content)]]
      in
      if Sender evt \<noteq> UserID (config m) then
        (let eventID = ID evt;
             parentID = (case GetRelatesTo content of
                           None \<Rightarrow> ''''
                         | Some relatesTo \<Rightarrow> GetReplyTo relatesTo);
             found = (if parentID \<noteq> '''' then FindByEventID (conversations m) parentID
                      else None);
             (m1, conv) =
               (case found of
                  Some c \<Rightarrow>
                    (m\<lparr>conversations := (conversations m)
                         [c := Add (conversations m ! c)
                                 \<lparr>EventID = eventID, ParentID = parentID,
                                  Role = ChatMessageRoleUser, Content = Body content\<rparr>]\<rparr>,
                     c)
                | None \<Rightarrow>
                    (m\<lparr>conversations := conversations m @ [NewConversation (Body content)]\<rparr>,
                     length (conversations m)));
             completion = Complete env (conversations m1 ! conv)
         in
         case completion of
           Inl err \<Rightarrow>
             (m1, received @
                  [CallComplete (conversations m1 ! conv) completion,
                   LogError err ''OpenAI API returned with '' []], Returned)
         | Inr reply \<Rightarrow>
             (let formattedReply =
                    (RenderMarkdown env reply True False)
                      \<lparr>RelatesTo := Some \<lparr>InReplyTo = Some eventID\<rparr>\<rparr>;
                  sent = SendMessageEvent env (RoomID evt) EventMessage formattedReply
              in
              case sent of
                Inl err \<Rightarrow>
                  (m1, received @
                       [CallComplete (conversations m1 ! conv) completion,
                        CallSendMessageEvent (RoomID evt) EventMessage formattedReply sent,
                        LogError err ''failed to send message'' []], Returned)
              | Inr resp_EventID \<Rightarrow>
                  (m1\<lparr>conversations := (conversations m1)
                        [conv := Add (conversations m1 ! conv)
                                   \<lparr>EventID = resp_EventID, ParentID = eventID,
                                    Role = ChatMessageRoleAssistant, Content = reply\<rparr>]\<rparr>,
                   received @
                   [CallComplete (conversations m1 ! conv) completion,
                    CallSendMessageEvent (RoomID evt) EventMessage formattedReply sent,
                    LogInfo ''Sent reply'' [(''message'', Body formattedReply)]],
                   Returned)))
      else (m, received, Returned))"

section \<open>The handlers of the earlier revision (package \<open>matrix\<close>)\<close>

definition matrix_InviteHandler :: "Collaborators \<Rightarrow> Matrix \<Rightarrow> Event \<Rightarrow> Matrix \<times> effect list \<times> outcome" where
  "matrix_InviteHandler env m evt =
     (if GetStateKey evt = client_UserID m
         \<and> Membership (AsMember (EvContent evt)) = MembershipInvite
      then
        (let err = JoinRoomByID env (RoomID evt) in
         case err of
           None \<Rightarrow>
             (m, [CallJoinRoomByID (RoomID evt) err,
                  SetPrompt (RoomID evt @ ''> ''),
                  LogInfo ''Joined room after invite''
                    [(''room_id'', RoomID evt), (''inviter'', Sender evt)]], Returned)
         | Some e \<Rightarrow>
             (m, [CallJoinRoomByID (RoomID evt) err,
                  LogError e ''Failed to join room after invite''
                    [(''room_id'', RoomID evt), (''inviter'', Sender evt)]], Returned))
      else (m, [], Returned))"

definition system_instruction :: string where
  "system_instruction =
     ''You are a chatbot that helps people by responding to their questions with short messages.''"

definition matrix_RespondHandler :: "Collaborators \<Rightarrow> Matrix \<Rightarrow> Event \<Rightarrow> Matrix \<times> effect list \<times> outcome" where
  "matrix_RespondHandler env m evt =
     (let received =
            [SetPrompt (RoomID evt @ ''> ''),
             LogInfo ''Received message''
               [(''sender'', Sender evt), (''type'', Type evt), (''id'', ID evt),
                (''body'', Body (AsMessage (EvContent evt)))]]
      in
      if Sender evt \<noteq> UserID (config m) then
        (let msgBody = Body (AsMessage (EvContent evt));
             request =
               \<lparr>Model = GPT4,
                Messages =
                  [\<lparr>MsgRole = ChatMessageRoleSystem, MsgContent = system_instruction\<rparr>,
                   \<lparr>MsgRole = ChatMessageRoleUser, MsgContent = msgBody\<rparr>]\<rparr>;
             answer = CreateChatCompletion env request
         in
         case answer of
           Inl err \<Rightarrow>
             (m, received @
                 [CallCreateChatCompletion request answer,
                  Println ''OpenAI API returned with '' err], Returned)
         | Inr openAiResp \<Rightarrow>
             (case index (Choices openAiResp) (int (length (Choices openAiResp)) - 1) of
                Inl i \<Rightarrow>
                  (m, received @ [CallCreateChatCompletion request answer], Panicked i)
              | Inr choice \<Rightarrow>
                  (let responseMarkdown = MsgContent (ChoiceMessage choice);
                       responseMessage = RenderMarkdown env responseMarkdown True False
                   in
                   (m, received @
                       [CallCreateChatCompletion request answer,
                        CallSendMessageEvent (RoomID evt) EventMessage responseMessage
                          (SendMessageEvent env (RoomID evt) EventMessage responseMessage)],
                    Returned))))
      else (m, received, Returned))"

section \<open>Vocabulary of the statements\<close>

text \<open>
  The names below describe what the first half of \<open>RespondHandler\<close> computes, so that
  the theorems can speak about it: the parent id read from the reply relation, the user
  turn made from the event, the conversation the parent resolves to (if any), the store
  once the inbound turn has been recorded, and the position of the conversation the
  handler goes on with. \<open>RespondHandler_user\<close> below proves that the handler is built
  from exactly these parts.
\<close>

definition parent_id :: "Event \<Rightarrow> EventID" where
  "parent_id evt =
     (case GetRelatesTo (AsMessage (EvContent evt)) of
        None \<Rightarrow> ''''
      | Some relatesTo \<Rightarrow> GetReplyTo relatesTo)"

definition user_turn :: "Event \<Rightarrow> Message" where
  "user_turn evt =
     \<lparr>EventID = ID evt, ParentID = parent_id evt, Role = ChatMessageRoleUser,
      Content = Body (AsMessage (EvContent evt))\<rparr>"

definition resolve :: "Conversation list \<Rightarrow> Event \<Rightarrow> nat option" where
  "resolve convs evt =
     (if parent_id evt \<noteq> '''' then FindByEventID convs (parent_id evt) else None)"

definition with_user_turn :: "Conversation list \<Rightarrow> Event \<Rightarrow> Conversation list" where
  "with_user_turn convs evt =
     (case resolve convs evt of
        Some c \<Rightarrow> convs[c := Add (convs ! c) (user_turn evt)]
      | None \<Rightarrow> convs @ [NewConversation (Body (AsMessage (EvContent evt)))])"

definition conv_ref :: "Conversation list \<Rightarrow> Event \<Rightarrow> nat" where
  "conv_ref convs evt = (case resolve convs evt of Some c \<Rightarrow> c | None \<Rightarrow> length convs)"

text \<open>The turns the resolved conversation had before the event; none for a new one.\<close>

definition prior_turns :: "Conversation list \<Rightarrow> Event \<Rightarrow> Message list" where
  "prior_turns convs evt =
     (case resolve convs evt of Some c \<Rightarrow> turns (convs ! c) | None \<Rightarrow> [])"

text \<open>The number of turns in the whole store, and the assistant turns in it.\<close>

definition turn_count :: "Conversation list \<Rightarrow> nat" where
  "turn_count convs = sum_list (map (\<lambda>conv. length (turns conv)) convs)"

definition assistant_turns :: "Conversation list \<Rightarrow> Message list" where
  "assistant_turns convs =
     filter (\<lambda>turn. Role turn = ChatMessageRoleAssistant) (concat (map turns convs))"

text \<open>The conversations of the store that hold a turn with a given id.\<close>

definition owners :: "Conversation list \<Rightarrow> EventID \<Rightarrow> Conversation list" where
  "owners convs eid = filter (\<lambda>conv. holds conv eid) convs"

text \<open>Trace entries that are outbound sends, and entries that are collaborator calls.\<close>

fun is_send :: "effect \<Rightarrow> bool" where
  "is_send (CallSendMessageEvent room ty content answer) = True"
| "is_send _ = False"

fun is_call :: "effect \<Rightarrow> bool" where
  "is_call (CallJoinRoomByID room answer) = True"
| "is_call (CallComplete conv answer) = True"
| "is_call (CallCreateChatCompletion request answer) = True"
| "is_call (CallSendMessageEvent room ty content answer) = True"
| "is_call _ = False"

section \<open>Example inputs\<close>

text \<open>
  The scenario of the specification: a bot with an empty store, a first message
  \<open>$E1\<close> "Hello", the reply sent as \<open>$E2\<close>, a follow-up \<open>$E3\<close> replying to \<open>$E2\<close>, and
  collaborators that succeed or fail.
\<close>

definition bot_config :: Config where
  "bot_config =
     \<lparr>Homeserver = ''https://example.org'', UserID = ''@bot:example.org'',
      UserAccessKey = '''', UserPassword = ''secret'', DBPath = ''bot.db'',
      Pickle = ''pickle'', OpenAIKey = ''key''\<rparr>"

definition fresh_bot :: Matrix where
  "fresh_bot = \<lparr>config = bot_config, client_UserID = ''@bot:example.org'', conversations = []\<rparr>"

definition thread_bot :: Matrix where
  "thread_bot =
     fresh_bot\<lparr>conversations :=
       [\<lparr>turns = [\<lparr>EventID = '''', ParentID = '''', Role = ''user'', Content = ''Hello''\<rparr>,
                  \<lparr>EventID = ''$E2'', ParentID = ''$E1'', Role = ''assistant'',
                   Content = ''Hello there!''\<rparr>]\<rparr>]\<rparr>"

definition plain_render :: "string \<Rightarrow> bool \<Rightarrow> bool \<Rightarrow> MessageEventContent" where
  "plain_render text markdown markup =
     \<lparr>Body = text, FormattedBody = text, RelatesTo = None\<rparr>"

definition ok_env :: Collaborators where
  "ok_env =
     \<lparr>JoinRoomByID = (\<lambda>room. None),
      SendMessageEvent = (\<lambda>room ty content. Inr ''$E2''),
      Complete = (\<lambda>conv. Inr ''Hello there!''),
      CreateChatCompletion =
        (\<lambda>request. Inr \<lparr>Choices =
           [\<lparr>ChoiceMessage = \<lparr>MsgRole = ''assistant'', MsgContent = ''Hi!''\<rparr>\<rparr>,
            \<lparr>ChoiceMessage = \<lparr>MsgRole = ''assistant'', MsgContent = ''Hello there!''\<rparr>\<rparr>]\<rparr>),
      RenderMarkdown = plain_render\<rparr>"

definition next_env :: Collaborators where
  "next_env =
     ok_env\<lparr>SendMessageEvent := (\<lambda>room ty content. Inr ''$E4''),
            Complete := (\<lambda>conv. Inr ''Fine, thanks.'')\<rparr>"

definition completion_down :: Collaborators where
  "completion_down = ok_env\<lparr>Complete := (\<lambda>conv. Inl ''timeout'')\<rparr>"

definition send_down :: Collaborators where
  "send_down = ok_env\<lparr>SendMessageEvent := (\<lambda>room ty content. Inl ''M_FORBIDDEN'')\<rparr>"

definition join_down :: Collaborators where
  "join_down = ok_env\<lparr>JoinRoomByID := (\<lambda>room. Some ''M_FORBIDDEN'')\<rparr>"

definition no_choices :: Collaborators where
  "no_choices = ok_env\<lparr>CreateChatCompletion := (\<lambda>request. Inr \<lparr>Choices = []\<rparr>)\<rparr>"

definition hello_event :: Event where
  "hello_event =
     \<lparr>Sender = ''@alice:example.org'', Type = ''m.room.message'', ID = ''$E1'',
      RoomID = ''!R'', StateKey = None,
      EvContent = ParsedMessage \<lparr>Body = ''Hello'', FormattedBody = '''', RelatesTo = None\<rparr>\<rparr>"

definition second_event :: Event where
  "second_event =
     \<lparr>Sender = ''@carol:example.org'', Type = ''m.room.message'', ID = ''$E5'',
      RoomID = ''!R'', StateKey = None,
      EvContent = ParsedMessage
        \<lparr>Body = ''Good morning'', FormattedBody = '''', RelatesTo = None\<rparr>\<rparr>"

definition followup_event :: Event where
  "followup_event =
     \<lparr>Sender = ''@alice:example.org'', Type = ''m.room.message'', ID = ''$E3'',
      RoomID = ''!R'', StateKey = None,
      EvContent = ParsedMessage
        \<lparr>Body = ''How are you?'', FormattedBody = '''',
         RelatesTo = Some \<lparr>InReplyTo = Some ''$E2''\<rparr>\<rparr>\<rparr>"

definition echo_event :: Event where
  "echo_event =
     \<lparr>Sender = ''@bot:example.org'', Type = ''m.room.message'', ID = ''$E2'',
      RoomID = ''!R'', StateKey = None,
      EvContent = ParsedMessage
        \<lparr>Body = ''Hello there!'', FormattedBody = ''Hello there!'',
         RelatesTo = Some \<lparr>InReplyTo = Some ''$E1''\<rparr>\<rparr>\<rparr>"

definition invite_event :: Event where
  "invite_event =
     \<lparr>Sender = ''@alice:example.org'', Type = ''m.room.member'', ID = ''$E0'',
      RoomID = ''!R'', StateKey = Some ''@bot:example.org'',
      EvContent = ParsedMember \<lparr>Membership = ''invite''\<rparr>\<rparr>"

text \<open>
  The store after two first messages, \<open>$E1\<close> and \<open>$E5\<close>, each answered successfully
  (the replies sent as \<open>$E2\<close> and \<open>$E4\<close>).
\<close>

definition two_threads :: Matrix where
  "two_threads =
     fst (RespondHandler next_env (fst (RespondHandler ok_env fresh_bot hello_event))
            second_event)"

lemmas example_defs =
  bot_config_def fresh_bot_def thread_bot_def plain_render_def ok_env_def next_env_def
  completion_down_def send_down_def join_down_def no_choices_def hello_event_def
  second_event_def followup_event_def echo_event_def invite_event_def

lemmas model_defs =
  RespondHandler_def matrix_RespondHandler_def InviteHandler_def matrix_InviteHandler_def
  Let_def GetRelatesTo_def GetReplyTo_def GetStateKey_def holds_def Add_def
  NewConversation_def index_def ChatMessageRoleUser_def ChatMessageRoleAssistant_def
  ChatMessageRoleSystem_def EventMessage_def StateMember_def MembershipInvite_def GPT4_def
  parent_id_def user_turn_def resolve_def with_user_turn_def conv_ref_def

section \<open>The lookup and the recorded turn\<close>

lemma FindByEventID_Some_iff:
  "FindByEventID convs eid = Some i \<longleftrightarrow>
     i < length convs \<and> holds (convs ! i) eid \<and> (\<forall>j<i. \<not> holds (convs ! j) eid)"
proof (induction convs arbitrary: i)
  case Nil
  show ?case by simp
next
  case (Cons conv convs)
  show ?case
  proof (cases "holds conv eid")
    case True
    then show ?thesis by (cases i) auto
  next
    case False
    show ?thesis
    proof (cases i)
      case 0
      with False show ?thesis by simp
    next
      case (Suc k)
      have "(\<forall>j<Suc k. \<not> holds ((conv # convs) ! j) eid) \<longleftrightarrow> (\<forall>j<k. \<not> holds (convs ! j) eid)"
        using False by (auto simp: less_Suc_eq_0_disj)
      with False Suc Cons.IH [of k] show ?thesis by auto
    qed
  qed
qed

lemma FindByEventID_None_iff:
  "FindByEventID convs eid = None \<longleftrightarrow> (\<forall>conv \<in> set convs. \<not> holds conv eid)"
  by (induction convs) auto

lemma resolve_in_range: "resolve convs evt = Some c \<Longrightarrow> c < length convs"
  by (auto simp: resolve_def FindByEventID_Some_iff split: if_splits)

text \<open>Every position the handler reads or updates lies inside the list.\<close>

lemma conv_ref_in_range: "conv_ref convs evt < length (with_user_turn convs evt)"
  by (auto simp: conv_ref_def with_user_turn_def dest: resolve_in_range split: option.splits)

lemma turn_count_append [simp]:
  "turn_count (convs @ [conv]) = turn_count convs + length (turns conv)"
  by (simp add: turn_count_def)

lemma turn_count_Add:
  assumes "c < length convs"
  shows "turn_count (convs[c := Add (convs ! c) turn]) = Suc (turn_count convs)"
  using assms
proof (induction convs arbitrary: c)
  case Nil
  then show ?case by simp
next
  case (Cons conv convs)
  then show ?case
    by (cases c) (simp_all add: turn_count_def Add_def)
qed

lemma turn_count_with_user_turn:
  "turn_count (with_user_turn convs evt) = Suc (turn_count convs)"
  by (auto simp: with_user_turn_def turn_count_Add NewConversation_def
      dest: resolve_in_range split: option.splits)

lemma assistant_turns_append [simp]:
  "assistant_turns (convs @ [conv]) =
     assistant_turns convs @ filter (\<lambda>turn. Role turn = ChatMessageRoleAssistant) (turns conv)"
  by (simp add: assistant_turns_def)

lemma assistant_turns_Add_user:
  assumes "c < length convs" and "Role turn \<noteq> ChatMessageRoleAssistant"
  shows "assistant_turns (convs[c := Add (convs ! c) turn]) = assistant_turns convs"
  using assms
proof (induction convs arbitrary: c)
  case Nil
  then show ?case by simp
next
  case (Cons conv convs)
  then show ?case
    by (cases c) (simp_all add: assistant_turns_def Add_def)
qed

lemma user_is_not_assistant: "ChatMessageRoleUser \<noteq> ChatMessageRoleAssistant"
  by (simp add: ChatMessageRoleUser_def ChatMessageRoleAssistant_def)

lemma assistant_turns_with_user_turn:
  "assistant_turns (with_user_turn convs evt) = assistant_turns convs"
  by (auto simp: with_user_turn_def assistant_turns_Add_user NewConversation_def user_turn_def
      user_is_not_assistant dest: resolve_in_range split: option.splits)

lemma with_user_turn_length_at:
  assumes "j < length convs"
  shows "length (turns (with_user_turn convs evt ! j)) \<le> Suc (length (turns (convs ! j)))"
proof (cases "resolve convs evt")
  case None
  with assms show ?thesis by (simp add: with_user_turn_def nth_append)
next
  case (Some c)
  then have "c < length convs" by (rule resolve_in_range)
  with Some assms show ?thesis
    by (cases "j = c") (simp_all add: with_user_turn_def Add_def)
qed

lemma with_user_turn_at_ref:
  "\<exists>u. turns (with_user_turn convs evt ! conv_ref convs evt) = prior_turns convs evt @ [u]
       \<and> Role u = ChatMessageRoleUser \<and> Content u = Body (AsMessage (EvContent evt))
       \<and> (resolve convs evt \<noteq> None \<longrightarrow> u = user_turn evt)"
proof (cases "resolve convs evt")
  case None
  then show ?thesis
    by (simp add: with_user_turn_def conv_ref_def prior_turns_def NewConversation_def)
next
  case (Some c)
  then have "c < length convs" by (rule resolve_in_range)
  with Some show ?thesis
    by (simp add: with_user_turn_def conv_ref_def prior_turns_def Add_def user_turn_def)
qed

lemma with_user_turn_elsewhere:
  assumes "j < length convs" and "j \<noteq> conv_ref convs evt"
  shows "with_user_turn convs evt ! j = convs ! j"
  using assms
  by (auto simp: with_user_turn_def conv_ref_def nth_append split: option.splits)

section \<open>The shape of a handling cycle\<close>

lemma RespondHandler_self:
  "Sender evt = UserID (config m) \<Longrightarrow>
     RespondHandler env m evt =
       (m, [LogInfo ''Received message'' [(''content'', Body (AsMessage (EvContent evt)))]],
        Returned)"
  by (simp add: RespondHandler_def)

text \<open>
  For an event of another sender the handler records the inbound turn, asks for the
  completion of the conversation it recorded it in, sends the reply and records the
  assistant turn, stopping at the first failure.
\<close>

lemma RespondHandler_user:
  assumes "Sender evt \<noteq> UserID (config m)"
  shows "RespondHandler env m evt =
     (let received = [LogInfo ''Received message'' [(''content'', Body (AsMessage (EvContent evt)))]];
          convs1 = with_user_turn (conversations m) evt;
          conv = conv_ref (conversations m) evt;
          completion = Complete env (convs1 ! conv)
      in case completion of
           Inl err \<Rightarrow>
             (m\<lparr>conversations := convs1\<rparr>,
              received @ [CallComplete (convs1 ! conv) completion,
                          LogError err ''OpenAI API returned with '' []], Returned)
         | Inr reply \<Rightarrow>
             (let formattedReply =
                    (RenderMarkdown env reply True False)
                      \<lparr>RelatesTo := Some \<lparr>InReplyTo = Some (ID evt)\<rparr>\<rparr>;
                  sent = SendMessageEvent env (RoomID evt) EventMessage formattedReply
              in case sent of
                   Inl err \<Rightarrow>
                     (m\<lparr>conversations := convs1\<rparr>,
                      received @
                      [CallComplete (convs1 ! conv) completion,
                       CallSendMessageEvent (RoomID evt) EventMessage formattedReply sent,
                       LogError err ''failed to send message'' []], Returned)
                 | Inr resp_EventID \<Rightarrow>
                     (m\<lparr>conversations := convs1
                          [conv := Add (convs1 ! conv)
                                     \<lparr>EventID = resp_EventID, ParentID = ID evt,
                                      Role = ChatMessageRoleAssistant, Content = reply\<rparr>]\<rparr>,
                      received @
                      [CallComplete (convs1 ! conv) completion,
                       CallSendMessageEvent (RoomID evt) EventMessage formattedReply sent,
                       LogInfo ''Sent reply'' [(''message'', Body formattedReply)]],
                      Returned)))"
  using assms
  by (simp add: RespondHandler_def Let_def with_user_turn_def conv_ref_def resolve_def
      parent_id_def user_turn_def split: option.splits sum.splits)

lemma RespondHandler_store:
  assumes "Sender evt \<noteq> UserID (config m)"
  shows "conversations (fst (RespondHandler env m evt)) = with_user_turn (conversations m) evt
       \<or> (\<exists>turn. conversations (fst (RespondHandler env m evt)) =
             (with_user_turn (conversations m) evt)
               [conv_ref (conversations m) evt :=
                  Add (with_user_turn (conversations m) evt ! conv_ref (conversations m) evt)
                    turn])"
  using assms by (auto simp: RespondHandler_user Let_def split: sum.splits)

lemma completion_failed_cases:
  assumes "RespondHandler env m evt = (m', tr, out)"
    and "CallComplete conv (Inl err) \<in> set tr"
  shows "Sender evt \<noteq> UserID (config m)
     \<and> conv = with_user_turn (conversations m) evt ! conv_ref (conversations m) evt
     \<and> Complete env conv = Inl err
     \<and> m' = m\<lparr>conversations := with_user_turn (conversations m) evt\<rparr>
     \<and> tr = [LogInfo ''Received message'' [(''content'', Body (AsMessage (EvContent evt)))],
             CallComplete conv (Inl err), LogError err ''OpenAI API returned with '' []]
     \<and> out = Returned"
proof (cases "Sender evt = UserID (config m)")
  case True
  with assms show ?thesis by (auto simp: RespondHandler_self)
next
  case False
  with assms show ?thesis
    by (auto simp: RespondHandler_user Let_def split: sum.splits)
qed

lemma send_failed_cases:
  assumes "RespondHandler env m evt = (m', tr, out)"
    and "CallSendMessageEvent room ty content (Inl err) \<in> set tr"
  shows "Sender evt \<noteq> UserID (config m)
     \<and> (\<exists>reply. Complete env (with_user_turn (conversations m) evt ! conv_ref (conversations m) evt)
                   = Inr reply
          \<and> content = (RenderMarkdown env reply True False)
                         \<lparr>RelatesTo := Some \<lparr>InReplyTo = Some (ID evt)\<rparr>\<rparr>
          \<and> tr = [LogInfo ''Received message'' [(''content'', Body (AsMessage (EvContent evt)))],
                  CallComplete (with_user_turn (conversations m) evt ! conv_ref (conversations m) evt)
                    (Inr reply),
                  CallSendMessageEvent room ty content (Inl err),
                  LogError err ''failed to send message'' []])
     \<and> room = RoomID evt \<and> ty = EventMessage
     \<and> m' = m\<lparr>conversations := with_user_turn (conversations m) evt\<rparr>
     \<and> out = Returned"
proof (cases "Sender evt = UserID (config m)")
  case True
  with assms show ?thesis by (auto simp: RespondHandler_self)
next
  case False
  with assms show ?thesis
    by (auto simp: RespondHandler_user Let_def split: sum.splits)
qed

lemma replied_cases:
  assumes "RespondHandler env m evt = (m', tr, out)"
    and "CallComplete conv (Inr reply) \<in> set tr"
    and "CallSendMessageEvent room ty content (Inr sent) \<in> set tr"
  shows "Sender evt \<noteq> UserID (config m)
     \<and> conv = with_user_turn (conversations m) evt ! conv_ref (conversations m) evt
     \<and> m' = m\<lparr>conversations := (with_user_turn (conversations m) evt)
              [conv_ref (conversations m) evt :=
                 Add conv \<lparr>EventID = sent, ParentID = ID evt,
                           Role = ChatMessageRoleAssistant, Content = reply\<rparr>]\<rparr>
     \<and> out = Returned"
proof (cases "Sender evt = UserID (config m)")
  case True
  with assms show ?thesis by (auto simp: RespondHandler_self)
next
  case False
  with assms show ?thesis
    by (auto simp: RespondHandler_user Let_def split: sum.splits)
qed

text \<open>The earlier revision, once the completion service has answered.\<close>

lemma matrix_RespondHandler_answered:
  assumes "CallCreateChatCompletion request (Inr resp)
             \<in> set (fst (snd (matrix_RespondHandler env m evt)))"
  shows "Sender evt \<noteq> UserID (config m)
     \<and> matrix_RespondHandler env m evt =
        (let received =
               [SetPrompt (RoomID evt @ ''> ''),
                LogInfo ''Received message''
                  [(''sender'', Sender evt), (''type'', Type evt), (''id'', ID evt),
                   (''body'', Body (AsMessage (EvContent evt)))],
                CallCreateChatCompletion request (Inr resp)]
         in case index (Choices resp) (int (length (Choices resp)) - 1) of
              Inl i \<Rightarrow> (m, received, Panicked i)
            | Inr choice \<Rightarrow>
                (m, received @
                    [CallSendMessageEvent (RoomID evt) EventMessage
                       (RenderMarkdown env (MsgContent (ChoiceMessage choice)) True False)
                       (SendMessageEvent env (RoomID evt) EventMessage
                          (RenderMarkdown env (MsgContent (ChoiceMessage choice)) True False))],
                 Returned))"
proof (cases "Sender evt = UserID (config m)")
  case True
  with assms show ?thesis by (simp add: matrix_RespondHandler_def)
next
  case False
  with assms show ?thesis
    by (auto simp: matrix_RespondHandler_def Let_def split: sum.splits)
qed

lemma index_last:
  "xs \<noteq> [] \<Longrightarrow> index xs (int (length xs) - 1) = Inr (last xs)"
  by (cases xs rule: rev_cases) (simp_all add: index_def nth_append)

section \<open>Self-echo suppression\<close>

text \<open>
  C4. An inbound event whose sender is the bot's own configured identity makes no
  collaborator call at all (no completion request, no outbound send) and leaves the bot's
  state, the conversations included, as it was. The decision is the comparison of the
  two identities and nothing else: for every other sender, whatever the content, the
  handler does call a collaborator. Both revisions of the handler behave so.
\<close>

theorem self_echo_suppressed:
  "(filter is_call (fst (snd (RespondHandler env m evt))) = []) = (Sender evt = UserID (config m))
   \<and> (filter is_call (fst (snd (matrix_RespondHandler env m evt))) = [])
       = (Sender evt = UserID (config m))
   \<and> (Sender evt = UserID (config m) \<longrightarrow>
        fst (RespondHandler env m evt) = m \<and> fst (matrix_RespondHandler env m evt) = m)"
proof (cases "Sender evt = UserID (config m)")
  case True
  then show ?thesis
    by (simp add: RespondHandler_self matrix_RespondHandler_def)
next
  case False
  have "filter is_call (fst (snd (RespondHandler env m evt))) \<noteq> []"
    using False by (simp add: RespondHandler_user Let_def split: sum.splits)
  moreover have "filter is_call (fst (snd (matrix_RespondHandler env m evt))) \<noteq> []"
    using False by (simp add: matrix_RespondHandler_def Let_def split: sum.splits)
  ultimately show ?thesis using False by simp
qed

theorem self_echo_suppressed_witness:
  "Sender echo_event = UserID (config thread_bot)
   \<and> filter is_call (fst (snd (RespondHandler ok_env thread_bot echo_event))) = []
   \<and> filter is_call (fst (snd (matrix_RespondHandler ok_env thread_bot echo_event))) = []
   \<and> fst (RespondHandler ok_env thread_bot echo_event) = thread_bot
   \<and> Sender followup_event \<noteq> UserID (config thread_bot)
   \<and> filter is_call (fst (snd (RespondHandler ok_env thread_bot followup_event))) \<noteq> []"
  using self_echo_suppressed [of ok_env thread_bot echo_event]
    self_echo_suppressed [of ok_env thread_bot followup_event]
  by (simp add: example_defs)

section \<open>Invitations\<close>

text \<open>
  C9. For every invite event whose state key is the bot's own identity, whatever the room
  and the inviter, the handler calls the join operation for that room exactly once. When
  the call fails the failure is logged with the room and the inviter, nothing else is
  called (no second attempt, so the bot's membership is what the failed call left), the
  bot's state is unchanged and the handler returns normally to the syncer.
\<close>

theorem invite_join_attempted_once:
  assumes "GetStateKey evt = client_UserID m"
    and "Membership (AsMember (EvContent evt)) = MembershipInvite"
  shows "InviteHandler env m evt =
           (m, [CallJoinRoomByID (RoomID evt) (JoinRoomByID env (RoomID evt)),
                (case JoinRoomByID env (RoomID evt) of
                   None \<Rightarrow> LogInfo ''Joined room after invite''
                             [(''room_id'', RoomID evt), (''inviter'', Sender evt)]
                 | Some err \<Rightarrow> LogError err ''Failed to join room after invite''
                                 [(''room_id'', RoomID evt), (''inviter'', Sender evt)])],
            Returned)
       \<and> matrix_InviteHandler env m evt =
           (m, CallJoinRoomByID (RoomID evt) (JoinRoomByID env (RoomID evt)) #
               (case JoinRoomByID env (RoomID evt) of
                  None \<Rightarrow> [SetPrompt (RoomID evt @ ''> ''),
                            LogInfo ''Joined room after invite''
                              [(''room_id'', RoomID evt), (''inviter'', Sender evt)]]
                | Some err \<Rightarrow> [LogError err ''Failed to join room after invite''
                                  [(''room_id'', RoomID evt), (''inviter'', Sender evt)]]),
            Returned)"
  using assms
  by (simp add: InviteHandler_def matrix_InviteHandler_def Let_def split: option.splits)

theorem invite_join_attempted_once_witness:
  "GetStateKey invite_event = client_UserID fresh_bot
   \<and> Membership (AsMember (EvContent invite_event)) = MembershipInvite
   \<and> InviteHandler join_down fresh_bot invite_event =
       (fresh_bot,
        [CallJoinRoomByID ''!R'' (Some ''M_FORBIDDEN''),
         LogError ''M_FORBIDDEN'' ''Failed to join room after invite''
           [(''room_id'', ''!R''), (''inviter'', ''@alice:example.org'')]],
        Returned)"
  using invite_join_attempted_once [of invite_event fresh_bot join_down]
  by (simp add: example_defs GetStateKey_def MembershipInvite_def)

section \<open>The choice taken from a completion response\<close>

text \<open>
  C6. In the revision of the handler that reads the completion response itself, a
  successful response with at least one choice leads to exactly one outbound send, and
  the text sent is the content of the last choice, the one at position N - 1 of N.
\<close>

theorem last_choice_is_the_reply:
  assumes "CallCreateChatCompletion request (Inr resp)
             \<in> set (fst (snd (matrix_RespondHandler env m evt)))"
    and "Choices resp \<noteq> []"
  shows "filter is_send (fst (snd (matrix_RespondHandler env m evt))) =
           [CallSendMessageEvent (RoomID evt) EventMessage
              (RenderMarkdown env (MsgContent (ChoiceMessage (last (Choices resp)))) True False)
              (SendMessageEvent env (RoomID evt) EventMessage
                 (RenderMarkdown env (MsgContent (ChoiceMessage (last (Choices resp))))
                    True False))]
       \<and> last (Choices resp) = Choices resp ! (length (Choices resp) - 1)"
  using matrix_RespondHandler_answered [OF assms(1)] assms(2)
  by (simp add: Let_def index_last last_conv_nth)

theorem last_choice_is_the_reply_witness:
  "CallCreateChatCompletion
     \<lparr>Model = ''gpt-4'',
      Messages = [\<lparr>MsgRole = ''system'', MsgContent = system_instruction\<rparr>,
                  \<lparr>MsgRole = ''user'', MsgContent = ''Hello''\<rparr>]\<rparr>
     (Inr \<lparr>Choices =
            [\<lparr>ChoiceMessage = \<lparr>MsgRole = ''assistant'', MsgContent = ''Hi!''\<rparr>\<rparr>,
             \<lparr>ChoiceMessage = \<lparr>MsgRole = ''assistant'', MsgContent = ''Hello there!''\<rparr>\<rparr>]\<rparr>)
     \<in> set (fst (snd (matrix_RespondHandler ok_env fresh_bot hello_event)))
   \<and> filter is_send (fst (snd (matrix_RespondHandler ok_env fresh_bot hello_event))) =
       [CallSendMessageEvent ''!R'' ''m.room.message''
          \<lparr>Body = ''Hello there!'', FormattedBody = ''Hello there!'', RelatesTo = None\<rparr>
          (Inr ''$E2'')]"
proof -
  let ?request = "\<lparr>Model = ''gpt-4'',
      Messages = [\<lparr>MsgRole = ''system'', MsgContent = system_instruction\<rparr>,
                  \<lparr>MsgRole = ''user'', MsgContent = ''Hello''\<rparr>]\<rparr>"
  let ?resp = "\<lparr>Choices =
            [\<lparr>ChoiceMessage = \<lparr>MsgRole = ''assistant'', MsgContent = ''Hi!''\<rparr>\<rparr>,
             \<lparr>ChoiceMessage = \<lparr>MsgRole = ''assistant'', MsgContent = ''Hello there!''\<rparr>\<rparr>]\<rparr>"
  have called: "CallCreateChatCompletion ?request (Inr ?resp)
      \<in> set (fst (snd (matrix_RespondHandler ok_env fresh_bot hello_event)))"
    by (simp add: model_defs example_defs)
  have "Choices ?resp \<noteq> []" by simp
  from last_choice_is_the_reply [OF called this] called show ?thesis
    by (simp add: example_defs EventMessage_def)
qed

text \<open>
  C10. The same handler reads the choices at index \<open>len - 1\<close> without testing for an
  empty list. After a successful response the index is in bounds exactly when there is at
  least one choice; with no choice the index is -1, the read panics, and nothing is sent.
\<close>

theorem choice_index_in_bounds_iff_nonempty:
  assumes "CallCreateChatCompletion request (Inr resp)
             \<in> set (fst (snd (matrix_RespondHandler env m evt)))"
  shows "(index (Choices resp) (int (length (Choices resp)) - 1) = Inl (- 1))
           = (Choices resp = [])
       \<and> (snd (snd (matrix_RespondHandler env m evt)) = Panicked (- 1)) = (Choices resp = [])
       \<and> (snd (snd (matrix_RespondHandler env m evt)) = Returned) = (Choices resp \<noteq> [])
       \<and> (filter is_send (fst (snd (matrix_RespondHandler env m evt))) = [])
           = (Choices resp = [])"
proof (cases "Choices resp = []")
  case True
  with matrix_RespondHandler_answered [OF assms] show ?thesis
    by (simp add: Let_def index_def)
next
  case False
  with matrix_RespondHandler_answered [OF assms] show ?thesis
    by (simp add: Let_def index_last)
qed

theorem choice_index_in_bounds_iff_nonempty_witness:
  "CallCreateChatCompletion
     \<lparr>Model = ''gpt-4'',
      Messages = [\<lparr>MsgRole = ''system'', MsgContent = system_instruction\<rparr>,
                  \<lparr>MsgRole = ''user'', MsgContent = ''Hello''\<rparr>]\<rparr>
     (Inr \<lparr>Choices = []\<rparr>)
     \<in> set (fst (snd (matrix_RespondHandler no_choices fresh_bot hello_event)))
   \<and> snd (snd (matrix_RespondHandler no_choices fresh_bot hello_event)) = Panicked (- 1)
   \<and> filter is_send (fst (snd (matrix_RespondHandler no_choices fresh_bot hello_event))) = []"
proof -
  let ?request = "\<lparr>Model = ''gpt-4'',
      Messages = [\<lparr>MsgRole = ''system'', MsgContent = system_instruction\<rparr>,
                  \<lparr>MsgRole = ''user'', MsgContent = ''Hello''\<rparr>]\<rparr>"
  have called: "CallCreateChatCompletion ?request (Inr \<lparr>Choices = []\<rparr>)
      \<in> set (fst (snd (matrix_RespondHandler no_choices fresh_bot hello_event)))"
    by (simp add: model_defs example_defs)
  from choice_index_in_bounds_iff_nonempty [OF called] called show ?thesis
    by simp
qed

section \<open>Failures of a handling cycle\<close>

text \<open>
  C1, as stated, fails. The follow-up \<open>$E3\<close> replies to \<open>$E2\<close>, which the only
  conversation of the store holds. The handler appends the user turn before it asks for
  the completion; the completion call fails, and the conversation that had two turns
  before the event arrived has three afterwards.
\<close>

theorem completion_failure_changes_the_store:
  "CallComplete
     \<lparr>turns = [\<lparr>EventID = '''', ParentID = '''', Role = ''user'', Content = ''Hello''\<rparr>,
               \<lparr>EventID = ''$E2'', ParentID = ''$E1'', Role = ''assistant'',
                Content = ''Hello there!''\<rparr>,
               \<lparr>EventID = ''$E3'', ParentID = ''$E2'', Role = ''user'',
                Content = ''How are you?''\<rparr>]\<rparr>
     (Inl ''timeout'')
     \<in> set (fst (snd (RespondHandler completion_down thread_bot followup_event)))
   \<and> length (turns (conversations thread_bot ! 0)) = 2
   \<and> length (turns (conversations
        (fst (RespondHandler completion_down thread_bot followup_event)) ! 0)) = 3"
  by (simp add: model_defs example_defs)

text \<open>
  C1, amended. When the completion call fails, the failed call is the only collaborator
  call of the cycle, so no outbound message is sent, and no assistant turn is recorded.
  The inbound turn recorded before the request stays: the bot's state is the state before
  the event with the inbound turn recorded, the conversation given to the completion
  client is found unchanged in the store, and the store holds one turn more than before
  the event arrived.
\<close>

theorem completion_failure_keeps_only_the_user_turn:
  assumes "RespondHandler env m evt = (m', tr, out)"
    and "CallComplete conv (Inl err) \<in> set tr"
  shows "filter is_call tr = [CallComplete conv (Inl err)]
       \<and> filter is_send tr = []
       \<and> m' = m\<lparr>conversations := with_user_turn (conversations m) evt\<rparr>
       \<and> conversations m' ! conv_ref (conversations m) evt = conv
       \<and> turn_count (conversations m') = turn_count (conversations m) + 1
       \<and> assistant_turns (conversations m') = assistant_turns (conversations m)
       \<and> out = Returned"
  using completion_failed_cases [OF assms]
  by (simp add: turn_count_with_user_turn assistant_turns_with_user_turn)

theorem completion_failure_keeps_only_the_user_turn_witness:
  "CallComplete
     \<lparr>turns = [\<lparr>EventID = '''', ParentID = '''', Role = ''user'', Content = ''Hello''\<rparr>,
               \<lparr>EventID = ''$E2'', ParentID = ''$E1'', Role = ''assistant'',
                Content = ''Hello there!''\<rparr>,
               \<lparr>EventID = ''$E3'', ParentID = ''$E2'', Role = ''user'',
                Content = ''How are you?''\<rparr>]\<rparr>
     (Inl ''timeout'')
     \<in> set (fst (snd (RespondHandler completion_down thread_bot followup_event)))
   \<and> filter is_send (fst (snd (RespondHandler completion_down thread_bot followup_event))) = []
   \<and> turn_count (conversations (fst (RespondHandler completion_down thread_bot followup_event)))
       = turn_count (conversations thread_bot) + 1"
proof -
  define r where "r = RespondHandler completion_down thread_bot followup_event"
  have run: "RespondHandler completion_down thread_bot followup_event
               = (fst r, fst (snd r), snd (snd r))"
    by (simp add: r_def)
  let ?conv = "\<lparr>turns = [\<lparr>EventID = '''', ParentID = '''', Role = ''user'', Content = ''Hello''\<rparr>,
               \<lparr>EventID = ''$E2'', ParentID = ''$E1'', Role = ''assistant'',
                Content = ''Hello there!''\<rparr>,
               \<lparr>EventID = ''$E3'', ParentID = ''$E2'', Role = ''user'',
                Content = ''How are you?''\<rparr>]\<rparr>"
  have called: "CallComplete ?conv (Inl ''timeout'') \<in> set (fst (snd r))"
    by (simp add: r_def model_defs example_defs)
  from completion_failure_keeps_only_the_user_turn [OF run called] called
  show ?thesis by (auto simp: r_def)
qed

text \<open>
  C7. When the completion succeeds and the send fails, the failed send is the only send of
  the cycle and the completion was asked once (two collaborator calls in all), the bot's
  state is the state before the event with the inbound turn recorded and nothing of the
  reply in it, no assistant turn is added, the store holds exactly one turn more than
  before, and no conversation has grown by more than one turn.
\<close>

theorem send_failure_records_no_assistant_turn:
  assumes "RespondHandler env m evt = (m', tr, out)"
    and "CallSendMessageEvent room ty content (Inl err) \<in> set tr"
  shows "filter is_send tr = [CallSendMessageEvent room ty content (Inl err)]
       \<and> length (filter is_call tr) = 2
       \<and> m' = m\<lparr>conversations := with_user_turn (conversations m) evt\<rparr>
       \<and> turn_count (conversations m') = turn_count (conversations m) + 1
       \<and> (\<forall>j<length (conversations m).
            length (turns (conversations m' ! j)) \<le> length (turns (conversations m ! j)) + 1)
       \<and> assistant_turns (conversations m') = assistant_turns (conversations m)
       \<and> out = Returned"
proof -
  from send_failed_cases [OF assms] obtain reply where
    tr: "tr = [LogInfo ''Received message'' [(''content'', Body (AsMessage (EvContent evt)))],
               CallComplete (with_user_turn (conversations m) evt ! conv_ref (conversations m) evt)
                 (Inr reply),
               CallSendMessageEvent room ty content (Inl err),
               LogError err ''failed to send message'' []]"
    and m': "m' = m\<lparr>conversations := with_user_turn (conversations m) evt\<rparr>"
    and out: "out = Returned"
    by blast
  from tr have "filter is_send tr = [CallSendMessageEvent room ty content (Inl err)]"
    and "length (filter is_call tr) = 2"
    by simp_all
  with m' out show ?thesis
    by (simp add: turn_count_with_user_turn assistant_turns_with_user_turn
        with_user_turn_length_at)
qed

theorem send_failure_records_no_assistant_turn_witness:
  "CallSendMessageEvent ''!R'' ''m.room.message''
     \<lparr>Body = ''Hello there!'', FormattedBody = ''Hello there!'',
      RelatesTo = Some \<lparr>InReplyTo = Some ''$E3''\<rparr>\<rparr>
     (Inl ''M_FORBIDDEN'')
     \<in> set (fst (snd (RespondHandler send_down thread_bot followup_event)))
   \<and> length (filter is_send (fst (snd (RespondHandler send_down thread_bot followup_event)))) = 1
   \<and> turn_count (conversations (fst (RespondHandler send_down thread_bot followup_event)))
       = turn_count (conversations thread_bot) + 1
   \<and> assistant_turns (conversations (fst (RespondHandler send_down thread_bot followup_event)))
       = assistant_turns (conversations thread_bot)"
proof -
  define r where "r = RespondHandler send_down thread_bot followup_event"
  have run: "RespondHandler send_down thread_bot followup_event
               = (fst r, fst (snd r), snd (snd r))"
    by (simp add: r_def)
  let ?content = "\<lparr>Body = ''Hello there!'', FormattedBody = ''Hello there!'',
      RelatesTo = Some \<lparr>InReplyTo = Some ''$E3''\<rparr>\<rparr>"
  have called: "CallSendMessageEvent ''!R'' ''m.room.message'' ?content (Inl ''M_FORBIDDEN'')
      \<in> set (fst (snd r))"
    by (simp add: r_def model_defs example_defs)
  from send_failure_records_no_assistant_turn [OF run called] called
  show ?thesis by (auto simp: r_def)
qed

section \<open>A successful handling cycle\<close>

text \<open>
  C5. When the completion and the send both succeed, the conversation the event was
  resolved to (or the one created for it) ends with exactly two turns more than it had:
  first a user turn with the event's body (the turn made from the event when the parent
  resolved), then the assistant turn, whose id is the id the send returned, whose parent
  id is the inbound event's id and whose content is the reply. Every other conversation
  is unchanged and the store holds two turns more than before.
\<close>

theorem successful_cycle_adds_user_then_assistant:
  assumes "RespondHandler env m evt = (m', tr, out)"
    and "CallComplete conv (Inr reply) \<in> set tr"
    and "CallSendMessageEvent room ty content (Inr sent) \<in> set tr"
  shows "(\<exists>u. turns (conversations m' ! conv_ref (conversations m) evt) =
               prior_turns (conversations m) evt @
               [u, \<lparr>EventID = sent, ParentID = ID evt, Role = ChatMessageRoleAssistant,
                    Content = reply\<rparr>]
             \<and> Role u = ChatMessageRoleUser
             \<and> Content u = Body (AsMessage (EvContent evt))
             \<and> (resolve (conversations m) evt \<noteq> None \<longrightarrow> u = user_turn evt))
       \<and> (\<forall>j<length (conversations m).
            j \<noteq> conv_ref (conversations m) evt \<longrightarrow> conversations m' ! j = conversations m ! j)
       \<and> turn_count (conversations m') = turn_count (conversations m) + 2
       \<and> out = Returned"
proof -
  let ?convs1 = "with_user_turn (conversations m) evt"
  let ?r = "conv_ref (conversations m) evt"
  let ?a = "\<lparr>EventID = sent, ParentID = ID evt, Role = ChatMessageRoleAssistant,
             Content = reply\<rparr>"
  from replied_cases [OF assms] have
    conv: "conv = ?convs1 ! ?r"
    and m': "conversations m' = ?convs1[?r := Add conv ?a]"
    and out: "out = Returned"
    by simp_all
  have r: "?r < length ?convs1" by (rule conv_ref_in_range)
  obtain u where u: "turns (?convs1 ! ?r) = prior_turns (conversations m) evt @ [u]"
    "Role u = ChatMessageRoleUser" "Content u = Body (AsMessage (EvContent evt))"
    "resolve (conversations m) evt \<noteq> None \<longrightarrow> u = user_turn evt"
    using with_user_turn_at_ref [of "conversations m" evt] by blast
  have "turns (conversations m' ! ?r) = prior_turns (conversations m) evt @ [u, ?a]"
    using r u(1) by (simp add: m' conv Add_def)
  moreover have "\<forall>j<length (conversations m).
      j \<noteq> ?r \<longrightarrow> conversations m' ! j = conversations m ! j"
    by (simp add: m' with_user_turn_elsewhere)
  moreover have "turn_count (conversations m') = turn_count (conversations m) + 2"
    using r by (simp add: m' conv turn_count_Add turn_count_with_user_turn)
  ultimately show ?thesis using u out by blast
qed

theorem successful_cycle_adds_user_then_assistant_witness:
  "CallComplete
     \<lparr>turns = [\<lparr>EventID = '''', ParentID = '''', Role = ''user'', Content = ''Hello''\<rparr>,
               \<lparr>EventID = ''$E2'', ParentID = ''$E1'', Role = ''assistant'',
                Content = ''Hello there!''\<rparr>,
               \<lparr>EventID = ''$E3'', ParentID = ''$E2'', Role = ''user'',
                Content = ''How are you?''\<rparr>]\<rparr>
     (Inr ''Fine, thanks.'')
     \<in> set (fst (snd (RespondHandler next_env thread_bot followup_event)))
   \<and> CallSendMessageEvent ''!R'' ''m.room.message''
       \<lparr>Body = ''Fine, thanks.'', FormattedBody = ''Fine, thanks.'',
        RelatesTo = Some \<lparr>InReplyTo = Some ''$E3''\<rparr>\<rparr>
       (Inr ''$E4'')
     \<in> set (fst (snd (RespondHandler next_env thread_bot followup_event)))
   \<and> turns (conversations (fst (RespondHandler next_env thread_bot followup_event)) ! 0) =
       turns (conversations thread_bot ! 0) @
       [\<lparr>EventID = ''$E3'', ParentID = ''$E2'', Role = ''user'', Content = ''How are you?''\<rparr>,
        \<lparr>EventID = ''$E4'', ParentID = ''$E3'', Role = ''assistant'',
         Content = ''Fine, thanks.''\<rparr>]
   \<and> turn_count (conversations (fst (RespondHandler next_env thread_bot followup_event)))
       = turn_count (conversations thread_bot) + 2"
proof -
  define r where "r = RespondHandler next_env thread_bot followup_event"
  have run: "RespondHandler next_env thread_bot followup_event
               = (fst r, fst (snd r), snd (snd r))"
    by (simp add: r_def)
  let ?conv = "\<lparr>turns = [\<lparr>EventID = '''', ParentID = '''', Role = ''user'', Content = ''Hello''\<rparr>,
               \<lparr>EventID = ''$E2'', ParentID = ''$E1'', Role = ''assistant'',
                Content = ''Hello there!''\<rparr>,
               \<lparr>EventID = ''$E3'', ParentID = ''$E2'', Role = ''user'',
                Content = ''How are you?''\<rparr>]\<rparr>"
  let ?content = "\<lparr>Body = ''Fine, thanks.'', FormattedBody = ''Fine, thanks.'',
        RelatesTo = Some \<lparr>InReplyTo = Some ''$E3''\<rparr>\<rparr>"
  have completed: "CallComplete ?conv (Inr ''Fine, thanks.'') \<in> set (fst (snd r))"
    by (simp add: r_def model_defs example_defs)
  have sent: "CallSendMessageEvent ''!R'' ''m.room.message'' ?content (Inr ''$E4'')
      \<in> set (fst (snd r))"
    by (simp add: r_def model_defs example_defs)
  have ref: "conv_ref (conversations thread_bot) followup_event = 0"
    and res: "resolve (conversations thread_bot) followup_event = Some 0"
    by (simp_all add: model_defs example_defs)
  have prior: "prior_turns (conversations thread_bot) followup_event
                 = turns (conversations thread_bot ! 0)"
    by (simp add: prior_turns_def res)
  have ut: "user_turn followup_event =
     \<lparr>EventID = ''$E3'', ParentID = ''$E2'', Role = ''user'', Content = ''How are you?''\<rparr>"
    by (simp add: model_defs example_defs)
  have id: "ID followup_event = ''$E3''"
    by (simp add: followup_event_def)
  note cycle = successful_cycle_adds_user_then_assistant [OF run completed sent]
  from cycle obtain u where
    u: "turns (conversations (fst r) ! conv_ref (conversations thread_bot) followup_event) =
          prior_turns (conversations thread_bot) followup_event @
          [u, \<lparr>EventID = ''$E4'', ParentID = ID followup_event,
               Role = ChatMessageRoleAssistant, Content = ''Fine, thanks.''\<rparr>]"
    and "resolve (conversations thread_bot) followup_event \<noteq> None
           \<longrightarrow> u = user_turn followup_event"
    by blast
  with res have "u = user_turn followup_event" by simp
  with u have gained: "turns (conversations (fst r) ! 0) =
       turns (conversations thread_bot ! 0) @
       [\<lparr>EventID = ''$E3'', ParentID = ''$E2'', Role = ''user'', Content = ''How are you?''\<rparr>,
        \<lparr>EventID = ''$E4'', ParentID = ''$E3'', Role = ''assistant'',
         Content = ''Fine, thanks.''\<rparr>]"
    by (simp add: ref prior ut id ChatMessageRoleAssistant_def)
  from cycle have count:
    "turn_count (conversations (fst r)) = turn_count (conversations thread_bot) + 2"
    by simp
  from completed sent gained count show ?thesis
    unfolding r_def by blast
qed

section \<open>Thread resolution\<close>

text \<open>
  C2. Take an event of a sender other than the bot whose non-empty parent id the store's
  lookup resolves to the conversation at position \<open>c\<close> (the first conversation holding
  that id, and the only one when no id is held twice), and whose own id is not already
  held by a conversation in front of \<open>c\<close> (in particular when the id is new, as the
  protocol's ids are). Handling it appends the user turn made from the event to that
  conversation, followed at most by the assistant turn; no conversation is added; and
  afterwards the lookup of the event's id returns \<open>c\<close>.
\<close>

theorem reply_is_appended_to_parent_conversation:
  assumes sender: "Sender evt \<noteq> UserID (config m)"
    and parent: "parent_id evt \<noteq> ''''"
    and found: "FindByEventID (conversations m) (parent_id evt) = Some c"
    and unowned: "\<forall>j<c. \<not> holds (conversations m ! j) (ID evt)"
    and run: "RespondHandler env m evt = (m', tr, out)"
  shows "(\<exists>rest. length rest \<le> 1
            \<and> turns (conversations m' ! c) =
                turns (conversations m ! c) @
                \<lparr>EventID = ID evt, ParentID = parent_id evt, Role = ChatMessageRoleUser,
                 Content = Body (AsMessage (EvContent evt))\<rparr> # rest)
       \<and> length (conversations m') = length (conversations m)
       \<and> FindByEventID (conversations m') (ID evt) = Some c"
proof -
  let ?convs = "conversations m"
  let ?u = "\<lparr>EventID = ID evt, ParentID = parent_id evt, Role = ChatMessageRoleUser,
             Content = Body (AsMessage (EvContent evt))\<rparr>"
  let ?convs1 = "?convs[c := Add (?convs ! c) ?u]"
  from parent found have res: "resolve ?convs evt = Some c"
    by (simp add: resolve_def)
  then have c: "c < length ?convs" by (rule resolve_in_range)
  from res have w: "with_user_turn ?convs evt = ?convs1" and r: "conv_ref ?convs evt = c"
    by (simp_all add: with_user_turn_def conv_ref_def user_turn_def)
  from RespondHandler_store [OF sender, of env] run
  have "conversations m' = ?convs1
      \<or> (\<exists>turn. conversations m' = ?convs1[c := Add (?convs1 ! c) turn])"
    by (simp add: w r)
  then obtain rest where rest: "length rest \<le> 1"
    and at_c: "turns (conversations m' ! c) = turns (?convs ! c) @ ?u # rest"
    and len: "length (conversations m') = length ?convs"
    and before: "\<forall>j<c. conversations m' ! j = ?convs ! j"
  proof
    assume "conversations m' = ?convs1"
    with c have "length [] \<le> (1::nat)"
      "turns (conversations m' ! c) = turns (?convs ! c) @ ?u # []"
      "length (conversations m') = length ?convs"
      "\<forall>j<c. conversations m' ! j = ?convs ! j"
      by (simp_all add: Add_def)
    then show ?thesis by (rule that)
  next
    assume "\<exists>turn. conversations m' = ?convs1[c := Add (?convs1 ! c) turn]"
    then obtain turn where "conversations m' = ?convs1[c := Add (?convs1 ! c) turn]" ..
    with c have "length [turn] \<le> (1::nat)"
      "turns (conversations m' ! c) = turns (?convs ! c) @ ?u # [turn]"
      "length (conversations m') = length ?convs"
      "\<forall>j<c. conversations m' ! j = ?convs ! j"
      by (simp_all add: Add_def)
    then show ?thesis by (rule that)
  qed
  have "holds (conversations m' ! c) (ID evt)"
    by (simp add: holds_def at_c)
  moreover have "\<forall>j<c. \<not> holds (conversations m' ! j) (ID evt)"
    using before unowned by simp
  ultimately have "FindByEventID (conversations m') (ID evt) = Some c"
    using c len by (simp add: FindByEventID_Some_iff)
  with rest at_c len show ?thesis by blast
qed

theorem reply_is_appended_to_parent_conversation_witness:
  "Sender followup_event \<noteq> UserID (config thread_bot)
   \<and> parent_id followup_event = ''$E2''
   \<and> FindByEventID (conversations thread_bot) ''$E2'' = Some 0
   \<and> turns (conversations (fst (RespondHandler next_env thread_bot followup_event)) ! 0) =
       turns (conversations thread_bot ! 0) @
       [\<lparr>EventID = ''$E3'', ParentID = ''$E2'', Role = ''user'', Content = ''How are you?''\<rparr>,
        \<lparr>EventID = ''$E4'', ParentID = ''$E3'', Role = ''assistant'',
         Content = ''Fine, thanks.''\<rparr>]
   \<and> FindByEventID (conversations (fst (RespondHandler next_env thread_bot followup_event)))
       ''$E3'' = Some 0"
proof -
  define r where "r = RespondHandler next_env thread_bot followup_event"
  have run: "RespondHandler next_env thread_bot followup_event
               = (fst r, fst (snd r), snd (snd r))"
    by (simp add: r_def)
  have sender: "Sender followup_event \<noteq> UserID (config thread_bot)"
    by (simp add: example_defs)
  have pid: "parent_id followup_event = ''$E2''"
    by (simp add: model_defs example_defs)
  then have parent: "parent_id followup_event \<noteq> ''''" by simp
  have lookup: "FindByEventID (conversations thread_bot) ''$E2'' = Some 0"
    by (simp add: model_defs example_defs)
  then have found: "FindByEventID (conversations thread_bot) (parent_id followup_event) = Some 0"
    by (simp add: pid)
  have unowned: "\<forall>j<0::nat. \<not> holds (conversations thread_bot ! j) (ID followup_event)"
    by simp
  have id: "ID followup_event = ''$E3''"
    by (simp add: followup_event_def)
  have gained: "turns (conversations (fst r) ! 0) =
       turns (conversations thread_bot ! 0) @
       [\<lparr>EventID = ''$E3'', ParentID = ''$E2'', Role = ''user'', Content = ''How are you?''\<rparr>,
        \<lparr>EventID = ''$E4'', ParentID = ''$E3'', Role = ''assistant'',
         Content = ''Fine, thanks.''\<rparr>]"
    by (simp add: r_def model_defs example_defs)
  from reply_is_appended_to_parent_conversation [OF sender parent found unowned run]
  have "FindByEventID (conversations (fst r)) ''$E3'' = Some 0"
    by (simp add: id)
  with sender pid lookup gained show ?thesis
    unfolding r_def by blast
qed

section \<open>New conversations\<close>

text \<open>
  When the parent id is empty or resolves to nothing, the handler registers one new
  conversation at the end of the store, and that conversation is the one given to the
  completion client. It is made from the event body alone.
\<close>

lemma new_conversation_is_registered:
  assumes "resolve convs evt = None"
  shows "with_user_turn convs evt = convs @ [NewConversation (Body (AsMessage (EvContent evt)))]
       \<and> with_user_turn convs evt ! conv_ref convs evt
           = NewConversation (Body (AsMessage (EvContent evt)))
       \<and> length (turns (NewConversation (Body (AsMessage (EvContent evt))))) = 1"
  using assms by (simp add: with_user_turn_def conv_ref_def NewConversation_def)

text \<open>
  C3 at the first message of the specification's scenario: \<open>$E1\<close> "Hello", no parent,
  empty store. The conversation given to the completion client has a single user turn
  with the body, but the turn's id is blank, not \<open>$E1\<close>: the handler hands
  \<open>NewConversation\<close> the body only, where the other branch records
  \<open>EventID: eventID\<close>. After the cycle the store does not know \<open>$E1\<close>, so a reply to
  \<open>$E1\<close> would not be resolved to this conversation.
\<close>

theorem new_conversation_seed_turn_has_blank_id:
  "ID hello_event = ''$E1''
   \<and> CallComplete
       \<lparr>turns = [\<lparr>EventID = '''', ParentID = '''', Role = ''user'', Content = ''Hello''\<rparr>]\<rparr>
       (Inr ''Hello there!'')
     \<in> set (fst (snd (RespondHandler ok_env fresh_bot hello_event)))
   \<and> conversations (fst (RespondHandler ok_env fresh_bot hello_event)) =
       [\<lparr>turns = [\<lparr>EventID = '''', ParentID = '''', Role = ''user'', Content = ''Hello''\<rparr>,
                  \<lparr>EventID = ''$E2'', ParentID = ''$E1'', Role = ''assistant'',
                   Content = ''Hello there!''\<rparr>]\<rparr>]
   \<and> FindByEventID (conversations (fst (RespondHandler ok_env fresh_bot hello_event))) ''$E1''
       = None"
  by (simp add: model_defs example_defs)

section \<open>Ownership of turn ids\<close>

lemma owners_append [simp]:
  "owners (convs @ convs') eid = owners convs eid @ owners convs' eid"
  by (simp add: owners_def)

lemma holds_Add [simp]: "holds (Add conv turn) eid \<longleftrightarrow> holds conv eid \<or> EventID turn = eid"
  by (auto simp: holds_def Add_def)

lemma holds_NewConversation [simp]: "holds (NewConversation question) eid \<longleftrightarrow> eid = ''''"
  by (auto simp: holds_def NewConversation_def)

lemma owners_Add:
  assumes "c < length convs"
  shows "length (owners (convs[c := Add (convs ! c) turn]) eid) =
           length (owners convs eid)
           + (if EventID turn = eid \<and> \<not> holds (convs ! c) eid then 1 else 0)"
  using assms
proof (induction convs arbitrary: c)
  case Nil
  then show ?case by simp
next
  case (Cons conv convs)
  show ?case
  proof (cases c)
    case 0
    then show ?thesis by (simp add: owners_def)
  next
    case (Suc k)
    with Cons.prems have "k < length convs" by simp
    from Cons.IH [OF this] Suc show ?thesis by (simp add: owners_def)
  qed
qed

lemma owners_with_user_turn:
  "length (owners (with_user_turn convs evt) eid) \<le>
     length (owners convs eid)
     + (if eid = '''' \<or> ID evt = eid then 1 else 0)"
proof (cases "resolve convs evt")
  case None
  then show ?thesis
    by (simp add: with_user_turn_def) (simp add: owners_def)
next
  case (Some c)
  then have c: "c < length convs" by (rule resolve_in_range)
  with Some show ?thesis
    by (auto simp: with_user_turn_def owners_Add user_turn_def)
qed

text \<open>
  Ids other than the blank one stay with a single conversation: if at most one
  conversation holds \<open>eid\<close>, the inbound event's id is new to the store, and the id
  returned by the send (if any) is new as well, then after the cycle at most one
  conversation holds \<open>eid\<close>.
\<close>

lemma nonblank_turn_ids_stay_unique:
  assumes run: "RespondHandler env m evt = (m', tr, out)"
    and eid: "eid \<noteq> ''''"
    and unique: "length (owners (conversations m) eid) \<le> 1"
    and fresh: "owners (conversations m) (ID evt) = []"
    and sent_fresh:
      "\<forall>room ty content sent. CallSendMessageEvent room ty content (Inr sent) \<in> set tr \<longrightarrow>
         sent \<noteq> ID evt \<and> owners (conversations m) sent = []"
  shows "length (owners (conversations m') eid) \<le> 1"
proof (cases "Sender evt = UserID (config m)")
  case True
  with run unique show ?thesis by (simp add: RespondHandler_self)
next
  case False
  let ?convs1 = "with_user_turn (conversations m) evt"
  let ?r = "conv_ref (conversations m) evt"
  have r: "?r < length ?convs1" by (rule conv_ref_in_range)
  have step1: "length (owners ?convs1 eid) \<le> 1"
  proof (cases "ID evt = eid")
    case True
    with fresh owners_with_user_turn [of "conversations m" evt eid] show ?thesis by simp
  next
    case False
    with eid unique owners_with_user_turn [of "conversations m" evt eid] show ?thesis by simp
  qed
  show ?thesis
  proof (cases "Complete env (?convs1 ! ?r)")
    case (Inl err)
    with run False step1 show ?thesis
      by (auto simp: RespondHandler_user Let_def)
  next
    case (Inr reply)
    let ?f = "(RenderMarkdown env reply True False)
                \<lparr>RelatesTo := Some \<lparr>InReplyTo = Some (ID evt)\<rparr>\<rparr>"
    show ?thesis
    proof (cases "SendMessageEvent env (RoomID evt) EventMessage ?f")
      case (Inl err)
      with run False step1 Inr show ?thesis
        by (auto simp: RespondHandler_user Let_def)
    next
      case sent: (Inr sent)
      let ?a = "\<lparr>EventID = sent, ParentID = ID evt, Role = ChatMessageRoleAssistant,
                 Content = reply\<rparr>"
      from run False Inr sent
      have m': "conversations m' = ?convs1[?r := Add (?convs1 ! ?r) ?a]"
        and called: "CallSendMessageEvent (RoomID evt) EventMessage ?f (Inr sent) \<in> set tr"
        by (auto simp: RespondHandler_user Let_def)
      from called sent_fresh have s: "sent \<noteq> ID evt" "owners (conversations m) sent = []"
        by blast+
      show ?thesis
      proof (cases "sent = eid")
        case True
        with s eid owners_with_user_turn [of "conversations m" evt eid]
        have "length (owners ?convs1 eid) = 0" by simp
        with r show ?thesis by (simp add: m' owners_Add)
      next
        case False
        with r step1 show ?thesis by (simp add: m' owners_Add)
      qed
    qed
  qed
qed

text \<open>
  C8 at two first messages, \<open>$E1\<close> and \<open>$E5\<close>, handled one after the other from the
  empty store, with four distinct ids from the protocol (\<open>$E1\<close>, \<open>$E2\<close>, \<open>$E5\<close>,
  \<open>$E4\<close>). Each message starts a conversation whose first turn has the blank id, so
  the two distinct conversations of the reached store hold a turn with the same id.
\<close>

theorem two_conversations_hold_the_blank_turn_id:
  "conversations two_threads =
     [\<lparr>turns = [\<lparr>EventID = '''', ParentID = '''', Role = ''user'', Content = ''Hello''\<rparr>,
                \<lparr>EventID = ''$E2'', ParentID = ''$E1'', Role = ''assistant'',
                 Content = ''Hello there!''\<rparr>]\<rparr>,
      \<lparr>turns = [\<lparr>EventID = '''', ParentID = '''', Role = ''user'',
                 Content = ''Good morning''\<rparr>,
                \<lparr>EventID = ''$E4'', ParentID = ''$E5'', Role = ''assistant'',
                 Content = ''Fine, thanks.''\<rparr>]\<rparr>]
   \<and> holds (conversations two_threads ! 0) ''''
   \<and> holds (conversations two_threads ! 1) ''''
   \<and> length (owners (conversations two_threads) '''') = 2"
  by (simp add: two_threads_def owners_def model_defs example_defs)


end
